theory Spec2Isabelle
  imports Complex_Main
begin

section \<open>Python values\<close>

text \<open>
  The ranked results and their \<^verbatim>\<open>schema_object\<close> are semi-structured values as a JSON
  decoder produces them. A dict is an association list with string keys, looked up with
  \<open>map_of\<close>. A float is known by its \<^verbatim>\<open>repr\<close> (which \<^verbatim>\<open>str\<close> returns too) and by whether it
  is non-zero. Strings are byte strings.
\<close>

datatype pyval =
    PNone
  | PBool bool
  | PInt int
  | PFloat string bool
  | PStr string
  | PList "pyval list"
  | PDict "(string \<times> pyval) list"

text \<open>
  The exceptions of the model are subclasses of \<^verbatim>\<open>Exception\<close>, the ones an
  \<^verbatim>\<open>except Exception\<close> clause catches.
\<close>

datatype exn = TypeError | KeyError | AttributeError | HTTPError | Failure string

text \<open>Truth value testing, as \<^verbatim>\<open>if x\<close>, \<^verbatim>\<open>not x\<close> and \<^verbatim>\<open>x or y\<close> use it.\<close>

fun truthy :: "pyval \<Rightarrow> bool" where
  "truthy PNone = False"
| "truthy (PBool b) = b"
| "truthy (PInt i) = (i \<noteq> 0)"
| "truthy (PFloat r nz) = nz"
| "truthy (PStr s) = (s \<noteq> [])"
| "truthy (PList xs) = (xs \<noteq> [])"
| "truthy (PDict kvs) = (kvs \<noteq> [])"

definition py_or :: "pyval \<Rightarrow> pyval \<Rightarrow> pyval" where
  "py_or a b = (if truthy a then a else b)"

text \<open>\<^verbatim>\<open>d.get(k)\<close> and \<^verbatim>\<open>d.get(k, default)\<close>.\<close>

definition dict_get_default :: "(string \<times> pyval) list \<Rightarrow> string \<Rightarrow> pyval \<Rightarrow> pyval" where
  "dict_get_default d k dflt = (case map_of d k of None \<Rightarrow> dflt | Some v \<Rightarrow> v)"

definition dict_get :: "(string \<times> pyval) list \<Rightarrow> string \<Rightarrow> pyval" where
  "dict_get d k = dict_get_default d k PNone"

subsection \<open>Strings\<close>

text \<open>\<^verbatim>\<open>s.startswith(p)\<close>.\<close>

definition startswith :: "string \<Rightarrow> string \<Rightarrow> bool" where
  "startswith s p = (take (length p) s = p)"

text \<open>\<^verbatim>\<open>sub in s\<close> for two strings.\<close>

fun has_substr :: "string \<Rightarrow> string \<Rightarrow> bool" where
  "has_substr sub [] = (sub = [])"
| "has_substr sub (c # cs) = (startswith (c # cs) sub \<or> has_substr sub cs)"

text \<open>
  \<^verbatim>\<open>s.split(sep)[0]\<close> for a non-empty separator: the text before the first occurrence of
  \<open>sep\<close>, the whole string when \<open>sep\<close> does not occur.
\<close>

fun split_head :: "string \<Rightarrow> string \<Rightarrow> string" where
  "split_head sep [] = []"
| "split_head sep (c # cs) = (if startswith (c # cs) sep then [] else c # split_head sep cs)"

fun join_with :: "string \<Rightarrow> string list \<Rightarrow> string" where
  "join_with sep [] = []"
| "join_with sep [s] = s"
| "join_with sep (s # t # ss) = s @ sep @ join_with sep (t # ss)"

text \<open>
  \<^verbatim>\<open>sep.join(parts)\<close>: every item has to be a \<^verbatim>\<open>str\<close>, any other item raises
  \<^verbatim>\<open>TypeError\<close>.
\<close>

fun str_items :: "pyval list \<Rightarrow> string list option" where
  "str_items [] = Some []"
| "str_items (PStr s # vs) = (case str_items vs of None \<Rightarrow> None | Some ss \<Rightarrow> Some (s # ss))"
| "str_items (v # vs) = None"

definition py_join :: "string \<Rightarrow> pyval list \<Rightarrow> exn + string" where
  "py_join sep parts =
     (case str_items parts of None \<Rightarrow> Inl TypeError | Some ss \<Rightarrow> Inr (join_with sep ss))"

subsection \<open>\<^verbatim>\<open>str\<close> and \<^verbatim>\<open>repr\<close>\<close>

fun digits10 :: "nat \<Rightarrow> string" where
  "digits10 n =
     (if n < 10 then [''0123456789'' ! n] else digits10 (n div 10) @ [''0123456789'' ! (n mod 10)])"

definition str_int :: "int \<Rightarrow> string" where
  "str_int i = (if i < 0 then CHR ''-'' # digits10 (nat (- i)) else digits10 (nat i))"

text \<open>
  \<^verbatim>\<open>repr\<close> of a string: double quotes when the text has a single quote and no double
  quote, single quotes otherwise; the backslash, the chosen quote and the control characters
  are escaped.
\<close>

definition escape_char :: "char \<Rightarrow> char \<Rightarrow> string" where
  "escape_char q c =
     (if c = CHR 0x5C then [CHR 0x5C, CHR 0x5C]
      else if c = q then [CHR 0x5C, q]
      else if c = CHR 0x09 then [CHR 0x5C, CHR ''t'']
      else if c = CHR 0x0A then [CHR 0x5C, CHR ''n'']
      else if c = CHR 0x0D then [CHR 0x5C, CHR ''r'']
      else if (of_char c :: nat) < 32 \<or> (of_char c :: nat) = 127
        then [CHR 0x5C, CHR ''x'', ''0123456789abcdef'' ! ((of_char c :: nat) div 16),
              ''0123456789abcdef'' ! ((of_char c :: nat) mod 16)]
      else [c])"

definition repr_str :: "string \<Rightarrow> string" where
  "repr_str s =
     (let q = (if CHR 0x27 \<in> set s \<and> CHR 0x22 \<notin> set s then CHR 0x22 else CHR 0x27)
      in q # concat (map (escape_char q) s) @ [q])"

fun py_repr :: "pyval \<Rightarrow> string" where
  "py_repr PNone = ''None''"
| "py_repr (PBool b) = (if b then ''True'' else ''False'')"
| "py_repr (PInt i) = str_int i"
| "py_repr (PFloat r nz) = r"
| "py_repr (PStr s) = repr_str s"
| "py_repr (PList xs) = ''['' @ join_with '', '' (map py_repr xs) @ '']''"
| "py_repr (PDict kvs) =
     ''{'' @ join_with '', '' (map (\<lambda>kv. repr_str (fst kv) @ '': '' @ py_repr (snd kv)) kvs) @ ''}''"

definition py_str :: "pyval \<Rightarrow> string" where
  "py_str v = (case v of PStr s \<Rightarrow> s | _ \<Rightarrow> py_repr v)"

declare digits10.simps [simp del]

section \<open>The address scan of \<^verbatim>\<open>check_and_send_map_message\<close>\<close>

text \<open>
  The candidate of a \<^verbatim>\<open>schema_object\<close> that is a dict:
  \<^verbatim>\<open>schema_obj.get('address') or schema_obj.get('location') or
  schema_obj.get('streetAddress') or schema_obj.get('postalAddress')\<close>.
\<close>

definition address_candidate :: "(string \<times> pyval) list \<Rightarrow> pyval" where
  "address_candidate schema_obj =
     py_or (py_or (py_or (dict_get schema_obj ''address'') (dict_get schema_obj ''location''))
                  (dict_get schema_obj ''streetAddress''))
           (dict_get schema_obj ''postalAddress'')"

text \<open>
  The structured address. The four fields are appended as \<^verbatim>\<open>str(value)\<close> unless the value
  is a dict; the country is appended as it is: \<^verbatim>\<open>country['name']\<close> of a dict that has the
  key, or a string that does not start with a brace.
\<close>

definition is_dict :: "pyval \<Rightarrow> bool" where
  "is_dict v = (case v of PDict d \<Rightarrow> True | _ \<Rightarrow> False)"

definition field_parts :: "(string \<times> pyval) list \<Rightarrow> pyval list" where
  "field_parts address =
     concat (map (\<lambda>field. case map_of address field of
                             None \<Rightarrow> []
                           | Some v \<Rightarrow> (if \<not> is_dict v then [PStr (py_str v)] else []))
                 [''streetAddress'', ''addressLocality'', ''addressRegion'', ''postalCode''])"

definition country_parts :: "(string \<times> pyval) list \<Rightarrow> pyval list" where
  "country_parts address =
     (case map_of address ''addressCountry'' of
        None \<Rightarrow> []
      | Some country \<Rightarrow>
          (case country of
             PDict c \<Rightarrow> (case map_of c ''name'' of None \<Rightarrow> [] | Some n \<Rightarrow> [n])
           | PStr s \<Rightarrow> (if \<not> startswith s ''{'' then [PStr s] else [])
           | _ \<Rightarrow> []))"

definition structured_address :: "(string \<times> pyval) list \<Rightarrow> exn + pyval" where
  "structured_address address =
     (let address_parts = field_parts address @ country_parts address
      in if address_parts \<noteq> []
         then (case py_join '', '' address_parts of Inl e \<Rightarrow> Inl e | Inr s \<Rightarrow> Inr (PStr s))
         else Inr PNone)"

text \<open>
  The value of the variable \<^verbatim>\<open>address\<close> when the loop body reaches \<^verbatim>\<open>if address:\<close>,
  or the exception raised on the way.
\<close>

definition resolve_address :: "pyval \<Rightarrow> exn + pyval" where
  "resolve_address schema_obj =
     (case schema_obj of
        PDict so \<Rightarrow>
          (case address_candidate so of
             PStr s \<Rightarrow> (if CHR ''{'' \<in> set s then Inr (PStr (split_head '', {'' s)) else Inr (PStr s))
           | PDict a \<Rightarrow> structured_address a
           | v \<Rightarrow> Inr v)
      | _ \<Rightarrow> Inr PNone)"

text \<open>
  \<^verbatim>\<open>'schema_object' in result\<close>: a key of a dict, a substring of a string, an item of a
  list; any other value is not iterable.
\<close>

definition py_contains :: "string \<Rightarrow> pyval \<Rightarrow> exn + bool" where
  "py_contains k container =
     (case container of
        PDict d \<Rightarrow> Inr (map_of d k \<noteq> None)
      | PStr s \<Rightarrow> Inr (has_substr k s)
      | PList xs \<Rightarrow> Inr (PStr k \<in> set xs)
      | _ \<Rightarrow> Inl TypeError)"

text \<open>\<^verbatim>\<open>container[k]\<close> for a string key.\<close>

definition py_getitem :: "pyval \<Rightarrow> string \<Rightarrow> exn + pyval" where
  "py_getitem container k =
     (case container of
        PDict d \<Rightarrow> (case map_of d k of None \<Rightarrow> Inl KeyError | Some v \<Rightarrow> Inr v)
      | _ \<Rightarrow> Inl TypeError)"

text \<open>
  One pass of the loop body: the map location of the result (\<open>None\<close> when the result is
  skipped), or the exception that leaves the loop.
\<close>

definition map_location :: "pyval \<Rightarrow> string \<Rightarrow> pyval" where
  "map_location title address = PDict [(''title'', title), (''address'', PStr address)]"

definition scan_result :: "pyval \<Rightarrow> exn + pyval option" where
  "scan_result result =
     (case py_contains ''schema_object'' result of
        Inl e \<Rightarrow> Inl e
      | Inr False \<Rightarrow> Inr None
      | Inr True \<Rightarrow>
          (case py_getitem result ''schema_object'' of
             Inl e \<Rightarrow> Inl e
           | Inr schema_obj \<Rightarrow>
               (case resolve_address schema_obj of
                  Inl e \<Rightarrow> Inl e
                | Inr address \<Rightarrow>
                    (if truthy address
                     then (case result of
                             PDict r \<Rightarrow> Inr (Some (map_location
                                          (dict_get_default r ''name'' (PStr ''Unnamed''))
                                          (py_str address)))
                           | _ \<Rightarrow> Inl TypeError)
                     else Inr None))))"

fun scan_results :: "pyval list \<Rightarrow> pyval list \<Rightarrow> exn + pyval list" where
  "scan_results results_with_addresses [] = Inr results_with_addresses"
| "scan_results results_with_addresses (result # rest) =
     (case scan_result result of
        Inl e \<Rightarrow> Inl e
      | Inr None \<Rightarrow> scan_results results_with_addresses rest
      | Inr (Some loc) \<Rightarrow> scan_results (results_with_addresses @ [loc]) rest)"

definition map_message :: "pyval list \<Rightarrow> pyval" where
  "map_message results_with_addresses =
     PDict [(''message_type'', PStr ''results_map''),
            (''@type'', PStr ''LocationMap''),
            (''locations'', PList results_with_addresses)]"

section \<open>The handler and its capabilities\<close>

text \<open>
  The \<^verbatim>\<open>Message\<close> object that \<^verbatim>\<open>SummarizeResults.do\<close> builds, with the two enumeration
  members the source names.
\<close>

datatype sender_type = ASSISTANT

datatype message_type = RESULT

record message =
  msg_sender_type :: sender_type
  msg_message_type :: message_type
  msg_content :: "pyval list"
  msg_conversation_id :: pyval

text \<open>
  The attributes of the handler that the two classes read and write;
  \<open>connection_alive\<close> is \<^verbatim>\<open>connection_alive_event.is_set()\<close>.
\<close>

record handler =
  connection_alive :: bool
  query_done :: bool
  generate_mode :: string
  final_ranked_answers :: "pyval list"
  summary :: pyval
  messages :: "message list"
  conversation_id :: pyval

text \<open>
  The collaborators, which are not part of these two classes: what each call answers.
  \<open>run_prompt\<close> answers a response or raises; the awaited \<open>send_message\<close>, the scheduling of
  the detached send and \<open>precheck_step_done\<close> complete (\<open>None\<close>) or raise. They do not write
  the handler attributes above.
\<close>

record env =
  run_prompt :: "string \<Rightarrow> nat \<Rightarrow> handler \<Rightarrow> exn + pyval"
  send_message :: "pyval \<Rightarrow> exn option"
  create_task :: "pyval \<Rightarrow> exn option"
  precheck_step_done :: "string \<Rightarrow> exn option"
  to_dict :: "message \<Rightarrow> pyval"

text \<open>
  The trace of a pass: every call of a collaborator, in order, and every error the
  logger records. \<open>RunPrompt\<close> carries the ranked answers the handler holds at the call,
  \<open>SendMessage\<close> the transcript it holds at the call; \<open>CreateTask m\<close> is the call
  \<^verbatim>\<open>asyncio.create_task(self.handler.send_message(m))\<close>. Debug and info logging is not traced.
\<close>

datatype event =
    RunPrompt string nat "pyval list"
  | CreateTask pyval
  | SendMessage pyval "message list"
  | StepDone string
  | LogError string

datatype outcome = Returned | Raised exn

section \<open>\<^verbatim>\<open>PostRanking\<close> and \<^verbatim>\<open>SummarizeResults\<close>\<close>

definition check_and_send_map_message :: "env \<Rightarrow> handler \<Rightarrow> outcome \<times> handler \<times> event list" where
  "check_and_send_map_message e h =
     (let results = final_ranked_answers h
      in if results = [] then (Returned, h, [])
         else (case scan_results [] results of
                 Inl err \<Rightarrow> (Returned, h, [LogError ''Error checking/sending map message''])
               | Inr results_with_addresses \<Rightarrow>
                   (if real (length results) / 2 \<le> real (length results_with_addresses)
                       \<and> 0 < length results_with_addresses
                    then (case create_task e (map_message results_with_addresses) of
                            None \<Rightarrow> (Returned, h, [CreateTask (map_message results_with_addresses)])
                          | Some err \<Rightarrow>
                              (Returned, h, [CreateTask (map_message results_with_addresses),
                                             LogError ''Failed to send results_map message'']))
                    else (Returned, h, []))))"

definition SUMMARIZE_RESULTS_PROMPT_NAME :: string where
  "SUMMARIZE_RESULTS_PROMPT_NAME = ''SummarizeResultsPrompt''"

definition summary_message :: "handler \<Rightarrow> message" where
  "summary_message h =
     \<lparr>msg_sender_type = ASSISTANT,
      msg_message_type = RESULT,
      msg_content = [PDict [(''@type'', PStr ''Summary''), (''content'', summary h)]],
      msg_conversation_id = conversation_id h\<rparr>"

definition SummarizeResults_do :: "env \<Rightarrow> handler \<Rightarrow> outcome \<times> handler \<times> event list" where
  "SummarizeResults_do e h =
     (let h1 = h\<lparr>final_ranked_answers := take 3 (final_ranked_answers h)\<rparr>;
          called = RunPrompt SUMMARIZE_RESULTS_PROMPT_NAME 20 (final_ranked_answers h1)
      in case run_prompt e SUMMARIZE_RESULTS_PROMPT_NAME 20 h1 of
           Inl err \<Rightarrow> (Raised err, h1, [called])
         | Inr response \<Rightarrow>
             (if \<not> truthy response
              then (Returned, h1, [called, LogError ''No response from SummarizeResults prompt''])
              else (case py_getitem response ''summary'' of
                      Inl err \<Rightarrow> (Raised err, h1, [called])
                    | Inr s \<Rightarrow>
                        (let h2 = h1\<lparr>summary := s\<rparr>;
                             summary_msg = summary_message h2;
                             h3 = h2\<lparr>messages := messages h2 @ [summary_msg]\<rparr>;
                             sent = SendMessage (to_dict e summary_msg) (messages h3)
                         in case send_message e (to_dict e summary_msg) of
                              Some err \<Rightarrow> (Raised err, h3, [called, sent])
                            | None \<Rightarrow>
                                (case precheck_step_done e ''post_ranking'' of
                                   Some err \<Rightarrow> (Raised err, h3, [called, sent, StepDone ''post_ranking''])
                                 | None \<Rightarrow> (Returned, h3, [called, sent, StepDone ''post_ranking'']))))))"

definition PostRanking_do :: "env \<Rightarrow> handler \<Rightarrow> outcome \<times> handler \<times> event list" where
  "PostRanking_do e h =
     (if \<not> connection_alive h then (Returned, h\<lparr>query_done := True\<rparr>, [])
      else (case check_and_send_map_message e h of
              (Raised err, h1, t1) \<Rightarrow> (Raised err, h1, t1)
            | (Returned, h1, t1) \<Rightarrow>
                (if generate_mode h1 = ''none'' then (Returned, h1, t1)
                 else if generate_mode h1 = ''summarize''
                   then (case SummarizeResults_do e h1 of (o2, h2, t2) \<Rightarrow> (o2, h2, t1 @ t2))
                 else (Returned, h1, t1))))"

text \<open>The three components of the result of a pass, and the events of one kind in a trace.\<close>

definition outcome_of :: "outcome \<times> handler \<times> event list \<Rightarrow> outcome" where
  "outcome_of r = fst r"

definition handler_of :: "outcome \<times> handler \<times> event list \<Rightarrow> handler" where
  "handler_of r = fst (snd r)"

definition trace_of :: "outcome \<times> handler \<times> event list \<Rightarrow> event list" where
  "trace_of r = snd (snd r)"

fun is_RunPrompt :: "event \<Rightarrow> bool" where
  "is_RunPrompt (RunPrompt name timeout answers) = True"
| "is_RunPrompt ev = False"

fun is_CreateTask :: "event \<Rightarrow> bool" where
  "is_CreateTask (CreateTask m) = True"
| "is_CreateTask ev = False"

fun is_SendMessage :: "event \<Rightarrow> bool" where
  "is_SendMessage (SendMessage m transcript) = True"
| "is_SendMessage ev = False"

fun is_StepDone :: "event \<Rightarrow> bool" where
  "is_StepDone (StepDone name) = True"
| "is_StepDone ev = False"

text \<open>
  A result has a resolved address when its pass of the loop body appends a location; the
  scan fails on a result when that pass raises.
\<close>

definition has_address :: "pyval \<Rightarrow> bool" where
  "has_address result = (case scan_result result of Inr (Some loc) \<Rightarrow> True | _ \<Rightarrow> False)"

definition scan_fails :: "pyval \<Rightarrow> bool" where
  "scan_fails result = (case scan_result result of Inl err \<Rightarrow> True | Inr x \<Rightarrow> False)"

section \<open>\<^verbatim>\<open>GoogleCustomSearchClient\<close>\<close>

text \<open>The configured client: \<^verbatim>\<open>api_key\<close>, \<^verbatim>\<open>cx\<close> and \<^verbatim>\<open>api_endpoint\<close>.\<close>

record client =
  api_key :: string
  cx :: string
  api_endpoint :: string

text \<open>The GET request of \<^verbatim>\<open>search\<close>: the URL, the query parameters and the timeout in seconds.\<close>

record request =
  req_url :: string
  req_params :: "(string \<times> pyval) list"
  req_timeout :: nat

text \<open>
  What lies outside the client: the answer of the network call with
  \<^verbatim>\<open>raise_for_status\<close> and the JSON decoding (the decoded body, or the exception raised
  inside the \<^verbatim>\<open>try\<close>), \<^verbatim>\<open>urlparse(url).netloc\<close> and \<^verbatim>\<open>json.dumps\<close>.
\<close>

record world =
  http_get :: "request \<Rightarrow> exn + pyval"
  urlparse_netloc :: "pyval \<Rightarrow> exn + string"
  json_dumps :: "pyval \<Rightarrow> exn + string"

text \<open>\<^verbatim>\<open>params[k] = v\<close> and \<^verbatim>\<open>params.update(other)\<close> on an association list.\<close>

fun dict_set :: "(string \<times> pyval) list \<Rightarrow> string \<Rightarrow> pyval \<Rightarrow> (string \<times> pyval) list" where
  "dict_set [] k v = [(k, v)]"
| "dict_set ((k', v') # d) k v = (if k' = k then (k, v) # d else (k', v') # dict_set d k v)"

fun dict_update :: "(string \<times> pyval) list \<Rightarrow> (string \<times> pyval) list \<Rightarrow> (string \<times> pyval) list" where
  "dict_update d [] = d"
| "dict_update d ((k, v) # other) = dict_update (dict_set d k v) other"

definition is_str :: "pyval \<Rightarrow> bool" where
  "is_str v = (case v of PStr s \<Rightarrow> True | _ \<Rightarrow> False)"

definition search_request ::
  "client \<Rightarrow> string \<Rightarrow> pyval \<Rightarrow> int \<Rightarrow> (string \<times> pyval) list \<Rightarrow> request" where
  "search_request c query site num_results kwargs =
     (let params = [(''key'', PStr (api_key c)), (''cx'', PStr (cx c)), (''q'', PStr query),
                    (''num'', PInt (max 1 (min num_results 10)))];
          params1 = (if truthy site \<and> is_str site \<and> site \<noteq> PStr ''all''
                     then dict_set params ''q''
                            (PStr (py_str (dict_get_default params ''q'' (PStr [])) @ '' site:'' @ py_str site))
                     else params);
          query_params = dict_get_default kwargs ''query_params'' (PDict []);
          params2 = (case query_params of PDict qp \<Rightarrow> dict_update params1 qp | _ \<Rightarrow> params1)
      in \<lparr>req_url = api_endpoint c, req_params = params2, req_timeout = 30\<rparr>)"

text \<open>\<^verbatim>\<open>_extract_domain_from_url\<close>.\<close>

definition extract_domain_from_url :: "world \<Rightarrow> pyval \<Rightarrow> string" where
  "extract_domain_from_url w url =
     (case urlparse_netloc w url of
        Inl err \<Rightarrow> ''unknown''
      | Inr netloc \<Rightarrow>
          (let domain = (if netloc \<noteq> [] then netloc else ''unknown'')
           in if startswith domain ''www.'' then drop 4 domain else domain))"

text \<open>\<^verbatim>\<open>xs[:n]\<close> on a list or a string.\<close>

definition slice_to :: "int \<Rightarrow> 'a list \<Rightarrow> 'a list" where
  "slice_to n xs = (if 0 \<le> n then take (nat n) xs else take (length xs - nat (- n)) xs)"

text \<open>The loop over \<^verbatim>\<open>items[:num_results]\<close>; \<^verbatim>\<open>it.get\<close> needs a dict.\<close>

fun search_rows :: "world \<Rightarrow> pyval list \<Rightarrow> pyval list \<Rightarrow> exn + pyval list" where
  "search_rows w results [] = Inr results"
| "search_rows w results (it # rest) =
     (case it of
        PDict d \<Rightarrow>
          (let link = dict_get_default d ''link'' (PStr []);
               title = dict_get_default d ''title'' (PStr []);
               snippet = dict_get_default d ''snippet'' (PStr []);
               site_domain = extract_domain_from_url w link;
               schema_obj = PDict [(''@type'', PStr ''WebPage''), (''name'', title),
                                   (''description'', snippet), (''url'', link),
                                   (''displayLink'', dict_get d ''displayLink'')]
           in case json_dumps w schema_obj of
                Inl err \<Rightarrow> Inl err
              | Inr json_str \<Rightarrow>
                  search_rows w (results @ [PList [link, PStr json_str, title, PStr site_domain]]) rest)
      | _ \<Rightarrow> Inl AttributeError)"

definition search ::
  "world \<Rightarrow> client \<Rightarrow> string \<Rightarrow> pyval \<Rightarrow> int \<Rightarrow> (string \<times> pyval) list \<Rightarrow> exn + pyval list" where
  "search w c query site num_results kwargs =
     (case http_get w (search_request c query site num_results kwargs) of
        Inl err \<Rightarrow> Inr []
      | Inr data \<Rightarrow>
          (case data of
             PDict d \<Rightarrow>
               (case dict_get_default d ''items'' (PList []) of
                  PList items \<Rightarrow> search_rows w [] (slice_to num_results items)
                | PStr s \<Rightarrow> (if slice_to num_results s = [] then Inr [] else Inl AttributeError)
                | _ \<Rightarrow> Inl TypeError)
           | _ \<Rightarrow> Inl AttributeError))"

definition search_all_sites ::
  "world \<Rightarrow> client \<Rightarrow> string \<Rightarrow> int \<Rightarrow> (string \<times> pyval) list \<Rightarrow> exn + pyval list" where
  "search_all_sites w c query num_results kwargs = search w c query (PStr ''all'') num_results kwargs"

section \<open>Concrete inputs\<close>

text \<open>
  A result with a plain address, a result without \<^verbatim>\<open>schema_object\<close>, and a result whose
  structured address has a country mapping with the name \<^verbatim>\<open>null\<close>.
\<close>

definition cafe :: pyval where
  "cafe = PDict [(''name'', PStr ''Cafe''),
                 (''schema_object'', PDict [(''address'', PStr ''1 Main St'')])]"

definition blog :: pyval where
  "blog = PDict [(''name'', PStr ''Blog'')]"

definition hotel :: pyval where
  "hotel = PDict [(''name'', PStr ''Hotel''),
                  (''schema_object'',
                   PDict [(''address'',
                           PDict [(''streetAddress'', PStr ''2 Side St''),
                                  (''addressCountry'', PDict [(''name'', PNone)])])])]"

definition quiet_env :: env where
  "quiet_env =
     \<lparr>run_prompt = (\<lambda>name timeout h. Inr (PDict [(''summary'', PStr ''Two places.'')])),
      send_message = (\<lambda>m. None),
      create_task = (\<lambda>m. None),
      precheck_step_done = (\<lambda>name. None),
      to_dict = (\<lambda>m. PDict [(''content'', PList (msg_content m)),
                              (''conversation_id'', msg_conversation_id m)])\<rparr>"

definition ranked :: "string \<Rightarrow> pyval list \<Rightarrow> handler" where
  "ranked mode results =
     \<lparr>connection_alive = True, query_done = False, generate_mode = mode,
      final_ranked_answers = results, summary = PNone, messages = [],
      conversation_id = PStr ''c1''\<rparr>"

definition demo_client :: client where
  "demo_client = \<lparr>api_key = ''k'', cx = ''x'', api_endpoint = ''https://customsearch.googleapis.com/customsearch/v1''\<rparr>"

definition offline :: world where
  "offline = \<lparr>http_get = (\<lambda>r. Inl HTTPError), urlparse_netloc = (\<lambda>u. Inr []),
              json_dumps = (\<lambda>v. Inr [])\<rparr>"

text \<open>A delivery channel that refuses the awaited send, and a prompt runner that answers \<^verbatim>\<open>None\<close>.\<close>

definition closed_env :: env where
  "closed_env = quiet_env\<lparr>send_message := (\<lambda>m. Some (Failure ''closed''))\<rparr>"

definition silent_env :: env where
  "silent_env = quiet_env\<lparr>run_prompt := (\<lambda>name timeout h. Inr PNone)\<rparr>"

section \<open>Properties of the pass\<close>

subsection \<open>The map check returns to its caller and leaves the handler alone\<close>

lemma check_and_send_frame:
  "outcome_of (check_and_send_map_message e h) = Returned
   \<and> handler_of (check_and_send_map_message e h) = h
   \<and> filter is_RunPrompt (trace_of (check_and_send_map_message e h)) = []
   \<and> filter is_SendMessage (trace_of (check_and_send_map_message e h)) = []
   \<and> filter is_StepDone (trace_of (check_and_send_map_message e h)) = []"
  by (simp add: check_and_send_map_message_def outcome_of_def handler_of_def trace_of_def Let_def
           split: sum.splits option.splits)

lemma check_and_send_triple:
  "check_and_send_map_message e h = (Returned, h, trace_of (check_and_send_map_message e h))"
  using check_and_send_frame [of e h]
  by (cases "check_and_send_map_message e h") (simp add: outcome_of_def handler_of_def trace_of_def)

lemma schedule_failure_logged:
  assumes "trace_of (check_and_send_map_message e h) = CreateTask m # t"
  shows "outcome_of (check_and_send_map_message e h) = Returned
         \<and> t = (case create_task e m of None \<Rightarrow> [] | Some err \<Rightarrow> [LogError ''Failed to send results_map message''])"
  using assms
  by (auto simp: check_and_send_map_message_def trace_of_def outcome_of_def Let_def
           split: sum.splits option.splits if_splits)

lemma PostRanking_alive:
  "connection_alive h \<Longrightarrow>
   PostRanking_do e h =
     (if generate_mode h = ''summarize''
      then (outcome_of (SummarizeResults_do e h), handler_of (SummarizeResults_do e h),
            trace_of (check_and_send_map_message e h) @ trace_of (SummarizeResults_do e h))
      else (Returned, h, trace_of (check_and_send_map_message e h)))"
  apply (subst PostRanking_do_def)
  apply (subst check_and_send_triple)
  apply (cases "SummarizeResults_do e h")
  apply (simp add: outcome_of_def handler_of_def trace_of_def)
  done

subsection \<open>The summarize path\<close>

lemma summarize_prompt_once:
  "filter is_RunPrompt (trace_of (SummarizeResults_do e h)) =
     [RunPrompt SUMMARIZE_RESULTS_PROMPT_NAME 20 (take 3 (final_ranked_answers h))]
   \<and> final_ranked_answers (handler_of (SummarizeResults_do e h)) = take 3 (final_ranked_answers h)"
  by (simp add: SummarizeResults_do_def handler_of_def trace_of_def Let_def
           split: sum.splits option.splits)

lemma summarize_null:
  assumes "run_prompt e SUMMARIZE_RESULTS_PROMPT_NAME 20
             (h\<lparr>final_ranked_answers := take 3 (final_ranked_answers h)\<rparr>) = Inr response"
    and "\<not> truthy response"
  shows "SummarizeResults_do e h =
           (Returned, h\<lparr>final_ranked_answers := take 3 (final_ranked_answers h)\<rparr>,
            [RunPrompt SUMMARIZE_RESULTS_PROMPT_NAME 20 (take 3 (final_ranked_answers h)),
             LogError ''No response from SummarizeResults prompt''])"
  using assms by (simp add: SummarizeResults_do_def Let_def)

lemma summarize_success:
  assumes "run_prompt e SUMMARIZE_RESULTS_PROMPT_NAME 20
             (h\<lparr>final_ranked_answers := take 3 (final_ranked_answers h)\<rparr>) = Inr response"
    and "truthy response"
    and "py_getitem response ''summary'' = Inr s"
  shows "trace_of (SummarizeResults_do e h) =
           [RunPrompt SUMMARIZE_RESULTS_PROMPT_NAME 20 (take 3 (final_ranked_answers h)),
            SendMessage (to_dict e (summary_message (h\<lparr>summary := s\<rparr>)))
                        (messages h @ [summary_message (h\<lparr>summary := s\<rparr>)])]
           @ (case send_message e (to_dict e (summary_message (h\<lparr>summary := s\<rparr>))) of
                None \<Rightarrow> [StepDone ''post_ranking''] | Some err \<Rightarrow> [])"
    and "messages (handler_of (SummarizeResults_do e h)) = messages h @ [summary_message (h\<lparr>summary := s\<rparr>)]"
    and "summary (handler_of (SummarizeResults_do e h)) = s"
    and "outcome_of (SummarizeResults_do e h) =
           (case send_message e (to_dict e (summary_message (h\<lparr>summary := s\<rparr>))) of
              Some err \<Rightarrow> Raised err
            | None \<Rightarrow> (case precheck_step_done e ''post_ranking'' of
                         Some err \<Rightarrow> Raised err | None \<Rightarrow> Returned))"
  using assms
  by (simp_all add: SummarizeResults_do_def Let_def summary_message_def trace_of_def handler_of_def
        outcome_of_def split: option.splits)

subsection \<open>The scan and the quorum\<close>

lemma scan_results_no_failure:
  "\<forall>r\<in>set rs. \<not> scan_fails r \<Longrightarrow>
   \<exists>locs. scan_results acc rs = Inr (acc @ locs) \<and> length locs = length (filter has_address rs)"
proof (induction rs arbitrary: acc)
  case Nil
  then show ?case by simp
next
  case (Cons r rs)
  then have nf: "\<not> scan_fails r" and rest: "\<forall>r\<in>set rs. \<not> scan_fails r" by simp_all
  show ?case
  proof (cases "scan_result r")
    case (Inl err)
    with nf show ?thesis by (simp add: scan_fails_def)
  next
    case (Inr x)
    show ?thesis
    proof (cases x)
      case None
      with Inr have "\<not> has_address r" by (simp add: has_address_def)
      with Inr None Cons.IH [OF rest, of acc] show ?thesis by simp
    next
      case (Some loc)
      with Inr have "has_address r" by (simp add: has_address_def)
      moreover from Cons.IH [OF rest, of "acc @ [loc]"] obtain locs where
        "scan_results (acc @ [loc]) rs = Inr ((acc @ [loc]) @ locs)"
        "length locs = length (filter has_address rs)" by blast
      ultimately show ?thesis using Inr Some by simp
    qed
  qed
qed

lemma scan_results_failure:
  "r \<in> set rs \<Longrightarrow> scan_fails r \<Longrightarrow> \<exists>err. scan_results acc rs = Inl err"
proof (induction rs arbitrary: acc)
  case Nil
  then show ?case by simp
next
  case (Cons x rs)
  show ?case
  proof (cases "scan_result x")
    case (Inl err)
    then show ?thesis by simp
  next
    case (Inr y)
    with Cons.prems have "r \<in> set rs" by (auto simp: scan_fails_def)
    from Cons.IH [OF this Cons.prems(2)] Inr show ?thesis by (cases y) simp_all
  qed
qed

text \<open>
  On a non-empty list on which no pass of the loop body raises, the map message is handed to
  \<^verbatim>\<open>create_task\<close> exactly when at least one result has an address and the results with an
  address are at least half of all results, compared as \<^verbatim>\<open>count >= total / 2\<close> in true
  division.
\<close>

lemma quorum_rule:
  assumes "final_ranked_answers h \<noteq> []"
    and "\<forall>r\<in>set (final_ranked_answers h). \<not> scan_fails r"
  shows "(filter is_CreateTask (trace_of (check_and_send_map_message e h)) \<noteq> []) =
           (0 < length (filter has_address (final_ranked_answers h))
            \<and> real (length (final_ranked_answers h)) / 2
                \<le> real (length (filter has_address (final_ranked_answers h))))"
proof -
  from scan_results_no_failure [OF assms(2), of "[]"] obtain locs where
    "scan_results [] (final_ranked_answers h) = Inr locs"
    "length locs = length (filter has_address (final_ranked_answers h))" by auto
  with assms(1) show ?thesis
    by (auto simp: check_and_send_map_message_def trace_of_def Let_def split: option.splits)
qed

text \<open>One pass that raises ends the whole scan: the error is logged and no map message is built.\<close>

lemma scan_failure_swallowed:
  assumes "r \<in> set (final_ranked_answers h)" and "scan_fails r"
  shows "check_and_send_map_message e h = (Returned, h, [LogError ''Error checking/sending map message''])"
proof -
  from scan_results_failure [OF assms, of "[]"] obtain err where
    "scan_results [] (final_ranked_answers h) = Inl err" by blast
  with assms(1) show ?thesis
    by (auto simp: check_and_send_map_message_def Let_def)
qed

lemmas scan_defs = scan_result_def py_contains_def py_getitem_def resolve_address_def
  address_candidate_def py_or_def dict_get_def dict_get_default_def structured_address_def
  field_parts_def country_parts_def is_dict_def py_join_def startswith_def py_str_def
  map_location_def

lemma scan_cafe: "scan_result cafe = Inr (Some (map_location (PStr ''Cafe'') ''1 Main St''))"
  by (simp add: cafe_def scan_defs)

lemma scan_blog: "scan_result blog = Inr None"
  by (simp add: blog_def scan_defs)

lemma scan_hotel: "scan_result hotel = Inl TypeError"
  by (simp add: hotel_def scan_defs)

text \<open>The boundaries: one address among two results, one among three, two among four.\<close>

lemma quorum_boundaries:
  "trace_of (check_and_send_map_message quiet_env (ranked ''none'' [cafe, blog])) =
     [CreateTask (map_message [map_location (PStr ''Cafe'') ''1 Main St''])]
   \<and> trace_of (check_and_send_map_message quiet_env (ranked ''none'' [cafe, blog, blog])) = []
   \<and> trace_of (check_and_send_map_message quiet_env (ranked ''none'' [cafe, blog, blog, cafe])) =
     [CreateTask (map_message [map_location (PStr ''Cafe'') ''1 Main St'',
                               map_location (PStr ''Cafe'') ''1 Main St''])]"
  by (simp add: scan_cafe scan_blog check_and_send_map_message_def ranked_def
        trace_of_def quiet_env_def)

text \<open>Three resolutions of well-formed addresses.\<close>

lemma resolve_address_examples:
  "resolve_address (PDict [(''address'',
       PDict [(''streetAddress'', PStr ''1 Main St''), (''addressLocality'', PStr ''Springfield''),
              (''addressCountry'', PDict [(''name'', PStr ''USA'')])])])
     = Inr (PStr ''1 Main St, Springfield, USA'')"
  "resolve_address (PDict [(''address'', PDict [(''addressCountry'', PStr ''USA'')])]) = Inr (PStr ''USA'')"
  "resolve_address (PDict [(''address'', PStr ''123 Elm, {nested:junk}'')]) = Inr (PStr ''123 Elm'')"
  by (simp_all add: scan_defs)

section \<open>The statements of the specification\<close>

text \<open>
  C1. For every non-empty list of ranked results the map message is emitted exactly when the
  number of results with a resolved address is positive and at least half of the total in true
  division. On the list of \<open>cafe\<close> and \<open>hotel\<close> one result of two has a resolved address, so the
  quorum is met, and no map message is handed to \<^verbatim>\<open>create_task\<close>: the pass over \<open>hotel\<close>
  raises in \<^verbatim>\<open>', '.join\<close> and the scan is abandoned (\<open>quorum_rule\<close> is the rule on the
  lists where no pass raises).
\<close>

theorem quorum_met_without_map:
  "has_address cafe \<and> \<not> has_address hotel
   \<and> 0 < length (filter has_address [cafe, hotel])
   \<and> real (length [cafe, hotel]) / 2 \<le> real (length (filter has_address [cafe, hotel]))
   \<and> filter is_CreateTask
       (trace_of (check_and_send_map_message quiet_env (ranked ''none'' [cafe, hotel]))) = []"
  by (simp add: has_address_def scan_cafe scan_hotel check_and_send_map_message_def ranked_def
        trace_of_def)

text \<open>
  C2. The candidate is the first of \<^verbatim>\<open>address\<close>, \<^verbatim>\<open>location\<close>, \<^verbatim>\<open>streetAddress\<close>,
  \<^verbatim>\<open>postalAddress\<close>, in that order, whose value is truthy; a field that is absent or holds a
  falsy value is passed over, and when no field holds a truthy value the candidate is what
  \<^verbatim>\<open>get('postalAddress')\<close> returns.
\<close>

theorem candidate_first_truthy:
  "address_candidate so =
     (case find truthy (map (dict_get so) [''address'', ''location'', ''streetAddress'', ''postalAddress'']) of
        Some v \<Rightarrow> v
      | None \<Rightarrow> dict_get so ''postalAddress'')"
  by (simp add: address_candidate_def py_or_def)

text \<open>
  A field that is present does not win by being present: with an empty \<^verbatim>\<open>address\<close> string
  in the mapping, \<^verbatim>\<open>location\<close> is consulted and becomes the candidate.
\<close>

theorem present_falsy_falls_through:
  "map_of [(''address'', PStr ''''), (''location'', PStr ''1 Main St'')] ''address'' = Some (PStr '''')
   \<and> address_candidate [(''address'', PStr ''''), (''location'', PStr ''1 Main St'')] = PStr ''1 Main St''
   \<and> resolve_address (PDict [(''address'', PStr ''''), (''location'', PStr ''1 Main St'')])
       = Inr (PStr ''1 Main St'')"
  by (simp add: scan_defs)

text \<open>
  C3. A structured address resolves to the comma-separated street, locality, region and postal
  code, each included only when its value is a scalar and not nested, followed by the country
  name. A \<^verbatim>\<open>streetAddress\<close> that is a list is nested and is included all the same, as its
  \<^verbatim>\<open>str\<close>; without that field the same address resolves to the locality alone. A country
  mapping whose \<^verbatim>\<open>name\<close> is not a string resolves to nothing: \<^verbatim>\<open>join\<close> raises.
\<close>

theorem nested_field_included:
  "resolve_address (PDict [(''address'',
       PDict [(''streetAddress'', PList [PStr ''12 High St'', PStr ''Suite 4'']),
              (''addressLocality'', PStr ''Leeds'')])])
     = Inr (PStr (''['' @ [CHR 0x27] @ ''12 High St'' @ [CHR 0x27] @ '', '' @ [CHR 0x27]
                  @ ''Suite 4'' @ [CHR 0x27] @ ''], Leeds''))
   \<and> resolve_address (PDict [(''address'', PDict [(''addressLocality'', PStr ''Leeds'')])])
     = Inr (PStr ''Leeds'')
   \<and> resolve_address (PDict [(''address'',
       PDict [(''addressLocality'', PStr ''Leeds''), (''addressCountry'', PDict [(''name'', PNone)])])])
     = Inl TypeError"
  by (simp add: scan_defs repr_str_def escape_char_def Let_def)

text \<open>
  C4. On a live connection, with any mode other than \<^verbatim>\<open>summarize\<close> the pass is the map
  check alone: it returns, and neither the prompt runner nor \<^verbatim>\<open>precheck_step_done\<close> is
  called. With the mode \<^verbatim>\<open>summarize\<close> the prompt runner is called once, on a handler
  whose ranked answers are already cut to the first three, and the handler keeps that cut list.
\<close>

theorem mode_dispatch:
  assumes "connection_alive h"
  shows "(generate_mode h \<noteq> ''summarize'' \<longrightarrow>
            PostRanking_do e h = check_and_send_map_message e h
            \<and> outcome_of (PostRanking_do e h) = Returned
            \<and> filter is_RunPrompt (trace_of (PostRanking_do e h)) = []
            \<and> filter is_StepDone (trace_of (PostRanking_do e h)) = [])
       \<and> (generate_mode h = ''summarize'' \<longrightarrow>
            filter is_RunPrompt (trace_of (PostRanking_do e h)) =
              [RunPrompt SUMMARIZE_RESULTS_PROMPT_NAME 20 (take 3 (final_ranked_answers h))]
            \<and> final_ranked_answers (handler_of (PostRanking_do e h)) = take 3 (final_ranked_answers h))"
proof (cases "generate_mode h = ''summarize''")
  case True
  with assms have "PostRanking_do e h =
      (outcome_of (SummarizeResults_do e h), handler_of (SummarizeResults_do e h),
       trace_of (check_and_send_map_message e h) @ trace_of (SummarizeResults_do e h))"
    by (simp add: PostRanking_alive)
  then show ?thesis
    using True check_and_send_frame [of e h] summarize_prompt_once [of e h]
    by (simp add: trace_of_def handler_of_def)
next
  case False
  with assms have eq: "PostRanking_do e h = (Returned, h, trace_of (check_and_send_map_message e h))"
    by (simp add: PostRanking_alive)
  then have "PostRanking_do e h = check_and_send_map_message e h"
    using check_and_send_triple [of e h] by simp
  then show ?thesis
    using False check_and_send_frame [of e h] by simp
qed

theorem mode_dispatch_witness:
  "connection_alive (ranked ''summarize'' [cafe, blog, cafe, blog, cafe])
   \<and> generate_mode (ranked ''summarize'' [cafe, blog, cafe, blog, cafe]) = ''summarize''
   \<and> filter is_RunPrompt (trace_of (PostRanking_do quiet_env (ranked ''summarize'' [cafe, blog, cafe, blog, cafe])))
       = [RunPrompt SUMMARIZE_RESULTS_PROMPT_NAME 20 [cafe, blog, cafe]]
   \<and> final_ranked_answers (handler_of (PostRanking_do quiet_env (ranked ''summarize'' [cafe, blog, cafe, blog, cafe])))
       = [cafe, blog, cafe]
   \<and> connection_alive (ranked ''none'' [cafe, blog])
   \<and> generate_mode (ranked ''none'' [cafe, blog]) \<noteq> ''summarize''
   \<and> filter is_RunPrompt (trace_of (PostRanking_do quiet_env (ranked ''none'' [cafe, blog]))) = []
   \<and> filter is_StepDone (trace_of (PostRanking_do quiet_env (ranked ''none'' [cafe, blog]))) = []"
proof -
  have a5: "connection_alive (ranked ''summarize'' [cafe, blog, cafe, blog, cafe])"
    and m5: "generate_mode (ranked ''summarize'' [cafe, blog, cafe, blog, cafe]) = ''summarize''"
    and t5: "take 3 (final_ranked_answers (ranked ''summarize'' [cafe, blog, cafe, blog, cafe])) = [cafe, blog, cafe]"
    and a2: "connection_alive (ranked ''none'' [cafe, blog])"
    and m2: "generate_mode (ranked ''none'' [cafe, blog]) \<noteq> ''summarize''"
    by (simp_all add: ranked_def)
  from mode_dispatch [OF a5, of quiet_env] m5 t5
  have "filter is_RunPrompt (trace_of (PostRanking_do quiet_env (ranked ''summarize'' [cafe, blog, cafe, blog, cafe])))
       = [RunPrompt SUMMARIZE_RESULTS_PROMPT_NAME 20 [cafe, blog, cafe]]
     \<and> final_ranked_answers (handler_of (PostRanking_do quiet_env (ranked ''summarize'' [cafe, blog, cafe, blog, cafe])))
       = [cafe, blog, cafe]"
    by metis
  moreover from mode_dispatch [OF a2, of quiet_env] m2
  have "filter is_RunPrompt (trace_of (PostRanking_do quiet_env (ranked ''none'' [cafe, blog]))) = []
     \<and> filter is_StepDone (trace_of (PostRanking_do quiet_env (ranked ''none'' [cafe, blog]))) = []"
    by blast
  ultimately show ?thesis using a5 m5 a2 m2 by blast
qed

text \<open>
  C5. On the summarize path with a usable response, the summary message is in the transcript
  when it is sent, the send comes before the completion signal, and the signal is called once,
  with \<^verbatim>\<open>post_ranking\<close>, only when the send has completed: a send that raises leaves the
  signal uncalled.
\<close>

theorem summarize_order:
  assumes "connection_alive h"
    and "generate_mode h = ''summarize''"
    and "run_prompt e SUMMARIZE_RESULTS_PROMPT_NAME 20
             (h\<lparr>final_ranked_answers := take 3 (final_ranked_answers h)\<rparr>) = Inr response"
    and "truthy response"
    and "py_getitem response ''summary'' = Inr s"
  shows "(send_message e (to_dict e (summary_message (h\<lparr>summary := s\<rparr>))) = None \<longrightarrow>
            trace_of (PostRanking_do e h) =
              trace_of (check_and_send_map_message e h) @
              [RunPrompt SUMMARIZE_RESULTS_PROMPT_NAME 20 (take 3 (final_ranked_answers h)),
               SendMessage (to_dict e (summary_message (h\<lparr>summary := s\<rparr>)))
                           (messages h @ [summary_message (h\<lparr>summary := s\<rparr>)]),
               StepDone ''post_ranking'']
            \<and> filter is_StepDone (trace_of (PostRanking_do e h)) = [StepDone ''post_ranking'']
            \<and> messages (handler_of (PostRanking_do e h)) =
                messages h @ [summary_message (h\<lparr>summary := s\<rparr>)])
       \<and> (\<forall>err. send_message e (to_dict e (summary_message (h\<lparr>summary := s\<rparr>))) = Some err \<longrightarrow>
            outcome_of (PostRanking_do e h) = Raised err
            \<and> filter is_StepDone (trace_of (PostRanking_do e h)) = [])"
proof -
  have eq: "PostRanking_do e h =
      (outcome_of (SummarizeResults_do e h), handler_of (SummarizeResults_do e h),
       trace_of (check_and_send_map_message e h) @ trace_of (SummarizeResults_do e h))"
    using assms(1,2) by (simp add: PostRanking_alive)
  note s = summarize_success [OF assms(3,4,5)]
  show ?thesis
    using check_and_send_frame [of e h]
    by (simp add: eq s trace_of_def [of "(a, b, c)" for a b c] handler_of_def [of "(a, b, c)" for a b c]
          outcome_of_def [of "(a, b, c)" for a b c])
qed

theorem summarize_order_witness:
  "connection_alive (ranked ''summarize'' [cafe, blog])
   \<and> generate_mode (ranked ''summarize'' [cafe, blog]) = ''summarize''
   \<and> run_prompt quiet_env SUMMARIZE_RESULTS_PROMPT_NAME 20
        ((ranked ''summarize'' [cafe, blog])\<lparr>final_ranked_answers := take 3 (final_ranked_answers (ranked ''summarize'' [cafe, blog]))\<rparr>)
       = Inr (PDict [(''summary'', PStr ''Two places.'')])
   \<and> truthy (PDict [(''summary'', PStr ''Two places.'')])
   \<and> py_getitem (PDict [(''summary'', PStr ''Two places.'')]) ''summary'' = Inr (PStr ''Two places.'')
   \<and> send_message quiet_env
        (to_dict quiet_env (summary_message ((ranked ''summarize'' [cafe, blog])\<lparr>summary := PStr ''Two places.''\<rparr>))) = None
   \<and> filter is_StepDone (trace_of (PostRanking_do quiet_env (ranked ''summarize'' [cafe, blog])))
       = [StepDone ''post_ranking'']
   \<and> messages (handler_of (PostRanking_do quiet_env (ranked ''summarize'' [cafe, blog])))
       = messages (ranked ''summarize'' [cafe, blog])
         @ [summary_message ((ranked ''summarize'' [cafe, blog])\<lparr>summary := PStr ''Two places.''\<rparr>)]
   \<and> send_message closed_env
        (to_dict closed_env (summary_message ((ranked ''summarize'' [cafe, blog])\<lparr>summary := PStr ''Two places.''\<rparr>)))
       = Some (Failure ''closed'')
   \<and> outcome_of (PostRanking_do closed_env (ranked ''summarize'' [cafe, blog])) = Raised (Failure ''closed'')
   \<and> filter is_StepDone (trace_of (PostRanking_do closed_env (ranked ''summarize'' [cafe, blog]))) = []"
proof -
  have a: "connection_alive (ranked ''summarize'' [cafe, blog])"
    and m: "generate_mode (ranked ''summarize'' [cafe, blog]) = ''summarize''"
    by (simp_all add: ranked_def)
  have r: "run_prompt quiet_env SUMMARIZE_RESULTS_PROMPT_NAME 20
        ((ranked ''summarize'' [cafe, blog])\<lparr>final_ranked_answers := take 3 (final_ranked_answers (ranked ''summarize'' [cafe, blog]))\<rparr>)
       = Inr (PDict [(''summary'', PStr ''Two places.'')])"
    and s: "send_message quiet_env
        (to_dict quiet_env (summary_message ((ranked ''summarize'' [cafe, blog])\<lparr>summary := PStr ''Two places.''\<rparr>))) = None"
    by (simp_all add: quiet_env_def)
  have t: "truthy (PDict [(''summary'', PStr ''Two places.'')])"
    and g: "py_getitem (PDict [(''summary'', PStr ''Two places.'')]) ''summary'' = Inr (PStr ''Two places.'')"
    by (simp_all add: py_getitem_def)
  from summarize_order [OF a m r t g] s
  have "filter is_StepDone (trace_of (PostRanking_do quiet_env (ranked ''summarize'' [cafe, blog])))
       = [StepDone ''post_ranking'']
     \<and> messages (handler_of (PostRanking_do quiet_env (ranked ''summarize'' [cafe, blog])))
       = messages (ranked ''summarize'' [cafe, blog])
         @ [summary_message ((ranked ''summarize'' [cafe, blog])\<lparr>summary := PStr ''Two places.''\<rparr>)]"
    by blast
  moreover have r': "run_prompt closed_env SUMMARIZE_RESULTS_PROMPT_NAME 20
        ((ranked ''summarize'' [cafe, blog])\<lparr>final_ranked_answers := take 3 (final_ranked_answers (ranked ''summarize'' [cafe, blog]))\<rparr>)
       = Inr (PDict [(''summary'', PStr ''Two places.'')])"
    and s': "send_message closed_env
        (to_dict closed_env (summary_message ((ranked ''summarize'' [cafe, blog])\<lparr>summary := PStr ''Two places.''\<rparr>)))
       = Some (Failure ''closed'')"
    by (simp_all add: closed_env_def quiet_env_def)
  moreover from summarize_order [OF a m r' t g] s'
  have "outcome_of (PostRanking_do closed_env (ranked ''summarize'' [cafe, blog])) = Raised (Failure ''closed'')
     \<and> filter is_StepDone (trace_of (PostRanking_do closed_env (ranked ''summarize'' [cafe, blog]))) = []"
    by blast
  ultimately show ?thesis using a m r s t g by blast
qed

text \<open>
  C6. When the prompt runner answers a falsy response the summarize path logs the error and
  stops: the transcript is unchanged, nothing is sent and the completion signal is not called.
\<close>

theorem null_response_stops:
  assumes "connection_alive h"
    and "generate_mode h = ''summarize''"
    and "run_prompt e SUMMARIZE_RESULTS_PROMPT_NAME 20
             (h\<lparr>final_ranked_answers := take 3 (final_ranked_answers h)\<rparr>) = Inr response"
    and "\<not> truthy response"
  shows "PostRanking_do e h =
           (Returned, h\<lparr>final_ranked_answers := take 3 (final_ranked_answers h)\<rparr>,
            trace_of (check_and_send_map_message e h) @
            [RunPrompt SUMMARIZE_RESULTS_PROMPT_NAME 20 (take 3 (final_ranked_answers h)),
             LogError ''No response from SummarizeResults prompt''])
         \<and> messages (handler_of (PostRanking_do e h)) = messages h
         \<and> filter is_SendMessage (trace_of (PostRanking_do e h)) = []
         \<and> filter is_StepDone (trace_of (PostRanking_do e h)) = []"
proof -
  have eq: "PostRanking_do e h =
           (Returned, h\<lparr>final_ranked_answers := take 3 (final_ranked_answers h)\<rparr>,
            trace_of (check_and_send_map_message e h) @
            [RunPrompt SUMMARIZE_RESULTS_PROMPT_NAME 20 (take 3 (final_ranked_answers h)),
             LogError ''No response from SummarizeResults prompt''])"
    using assms(1,2) summarize_null [OF assms(3,4)]
    by (simp add: PostRanking_alive outcome_of_def handler_of_def trace_of_def)
  show ?thesis
    using check_and_send_frame [of e h]
    by (simp add: eq trace_of_def [of "(a, b, c)" for a b c] handler_of_def [of "(a, b, c)" for a b c])
qed

theorem null_response_stops_witness:
  "connection_alive (ranked ''summarize'' [cafe, blog])
   \<and> generate_mode (ranked ''summarize'' [cafe, blog]) = ''summarize''
   \<and> run_prompt silent_env SUMMARIZE_RESULTS_PROMPT_NAME 20
        ((ranked ''summarize'' [cafe, blog])\<lparr>final_ranked_answers := take 3 (final_ranked_answers (ranked ''summarize'' [cafe, blog]))\<rparr>)
       = Inr PNone
   \<and> \<not> truthy PNone
   \<and> messages (handler_of (PostRanking_do silent_env
        (ranked ''summarize'' [cafe, blog]))) = messages (ranked ''summarize'' [cafe, blog])
   \<and> filter is_SendMessage (trace_of (PostRanking_do silent_env
        (ranked ''summarize'' [cafe, blog]))) = []
   \<and> filter is_StepDone (trace_of (PostRanking_do silent_env
        (ranked ''summarize'' [cafe, blog]))) = []"
proof -
  have a: "connection_alive (ranked ''summarize'' [cafe, blog])"
    and m: "generate_mode (ranked ''summarize'' [cafe, blog]) = ''summarize''"
    by (simp_all add: ranked_def)
  have r: "run_prompt silent_env SUMMARIZE_RESULTS_PROMPT_NAME 20
        ((ranked ''summarize'' [cafe, blog])\<lparr>final_ranked_answers := take 3 (final_ranked_answers (ranked ''summarize'' [cafe, blog]))\<rparr>)
       = Inr PNone"
    by (simp add: silent_env_def)
  have t: "\<not> truthy PNone" by simp
  from null_response_stops [OF a m r t] a m r t show ?thesis by blast
qed

text \<open>
  C7. When the connection is not alive at entry the pass sets \<^verbatim>\<open>query_done\<close> and returns:
  the handler is otherwise unchanged and no collaborator is called.
\<close>

theorem liveness_abort:
  "\<not> connection_alive h \<Longrightarrow> PostRanking_do e h = (Returned, h\<lparr>query_done := True\<rparr>, [])"
  by (simp add: PostRanking_do_def)

theorem liveness_abort_witness:
  "\<not> connection_alive ((ranked ''summarize'' [cafe, blog])\<lparr>connection_alive := False\<rparr>)
   \<and> PostRanking_do quiet_env ((ranked ''summarize'' [cafe, blog])\<lparr>connection_alive := False\<rparr>) =
       (Returned, (ranked ''summarize'' [cafe, blog])\<lparr>connection_alive := False, query_done := True\<rparr>, [])"
  using liveness_abort [of "(ranked ''summarize'' [cafe, blog])\<lparr>connection_alive := False\<rparr>" quiet_env]
  by simp

text \<open>
  C8. The map check never raises to its caller, and a result with a malformed
  \<^verbatim>\<open>schema_object\<close> is merely left out of the candidates. The check does return on the list
  of \<open>cafe\<close> and \<open>hotel\<close>, but \<open>hotel\<close> is not merely left out: its pass raises, the scan is
  abandoned and \<open>cafe\<close> is lost with it, while next to \<open>blog\<close>, which has no
  \<^verbatim>\<open>schema_object\<close>, the same \<open>cafe\<close> is put on the map.
\<close>

theorem malformed_country_ends_scan:
  "scan_result hotel = Inl TypeError
   \<and> check_and_send_map_message quiet_env (ranked ''none'' [cafe, hotel]) =
       (Returned, ranked ''none'' [cafe, hotel], [LogError ''Error checking/sending map message''])
   \<and> trace_of (check_and_send_map_message quiet_env (ranked ''none'' [cafe, blog])) =
       [CreateTask (map_message [map_location (PStr ''Cafe'') ''1 Main St''])]"
  by (simp add: scan_cafe scan_hotel scan_blog check_and_send_map_message_def ranked_def
        trace_of_def quiet_env_def)

text \<open>
  C9. The request of \<^verbatim>\<open>search\<close> has the timeout 30, and when the network call raises,
  \<^verbatim>\<open>search\<close> returns the empty list.
\<close>

theorem search_fail_soft:
  "req_timeout (search_request c query site num_results kwargs) = 30
   \<and> (\<forall>err. http_get w (search_request c query site num_results kwargs) = Inl err
         \<longrightarrow> search w c query site num_results kwargs = Inr [])"
  by (simp add: search_def search_request_def Let_def)

theorem search_fail_soft_witness:
  "http_get offline (search_request demo_client ''pizza'' (PStr ''example.com'') 5 []) = Inl HTTPError
   \<and> req_timeout (search_request demo_client ''pizza'' (PStr ''example.com'') 5 []) = 30
   \<and> search offline demo_client ''pizza'' (PStr ''example.com'') 5 [] = Inr []"
  using search_fail_soft [of demo_client "''pizza''" "PStr ''example.com''" 5 "[]" offline]
  by (simp add: offline_def)

text \<open>C10. \<^verbatim>\<open>search_all_sites\<close> is \<^verbatim>\<open>search\<close> with the site \<^verbatim>\<open>all\<close>.\<close>

theorem search_all_sites_eq:
  "search_all_sites w c query num_results kwargs = search w c query (PStr ''all'') num_results kwargs"
  by (simp add: search_all_sites_def)

end
